theory Spec2Isabelle
  imports Main
begin

section \<open>External collaborators\<close>

text \<open>
  The two applications (the single-party encrypt/decrypt demo and the Rock-Paper-Scissors
  game) are React components. Every handler is modelled as a function from the state it
  reads to the state after all its \<open>setState\<close> calls, together with the list of
  external calls it issued, in order, and the exception it ended with, if any. Such a
  function describes a handler that no other event interrupts. \<open>submitMove\<close> of the
  game, where a second submission can start while the first is at an \<open>await\<close>, is
  given await by await as well.

  Time is the value of \<open>Date.now()\<close>, in milliseconds, passed to the handler that reads
  it; \<open>Math.floor(Date.now() / 1000)\<close> is \<open>dateNow div 1000\<close>. Timestamps are integers
  (\<open>NaN\<close> and fractions do not occur).
\<close>

text \<open>
  Modelled from the spec: \<open>src/api.ts\<close> is not among the sources (the README gives only
  its signatures), so the ways its two calls, the SDK primitives and the platform
  functions can fail are the ones the spec names. The handlers never look at which
  exception they caught.
\<close>

datatype exn = TransportError | KeyNotYetAvailable | PrimitiveError | InvalidCharacterError

text \<open>
  Modelled from the spec: the constant \<open>DECRYPTION_DELAY\<close> of \<open>src/api.ts\<close>; the
  README and the spec give 120 seconds.
\<close>

definition DECRYPTION_DELAY :: int where
  "DECRYPTION_DELAY = 120"

text \<open>
  The imported functions, as parameters: \<open>fetchShutterData\<close> and
  \<open>fetchDecryptionKey\<close> of \<open>./api\<close>, \<open>encryptData\<close> and \<open>decrypt\<close> (imported as
  \<open>shutterDecrypt\<close>) of the Shutter SDK, \<open>stringToHex\<close> and \<open>hexToString\<close> of viem.
  \<open>fetchShutterData\<close> returns the pair \<open>(eon_key, identity)\<close>.
\<close>

record env =
  fetchShutterData :: "int \<Rightarrow> exn + (string \<times> string)"
  fetchDecryptionKey :: "string \<Rightarrow> exn + string"
  encryptData :: "string \<Rightarrow> string \<Rightarrow> string \<Rightarrow> string \<Rightarrow> exn + string"
  shutterDecrypt :: "string \<Rightarrow> string \<Rightarrow> exn + string"
  stringToHex :: "string \<Rightarrow> string"
  hexToString :: "string \<Rightarrow> exn + string"

datatype call =
    FetchShutterData int
  | FetchDecryptionKey string
  | EncryptData string string string string
  | ShutterDecrypt string string

text \<open>
  What a handler did: the state \<open>after\<close> it, the external \<open>calls\<close> it issued, in
  order, and the exception it was \<open>thrown\<close> out with (\<open>None\<close> when the promise
  resolved).
\<close>

record 's outcome =
  after :: 's
  calls :: "call list"
  thrown :: "exn option"

text \<open>\<open>ensureHexString\<close> of \<open>src/utils.ts\<close>, as the README lists it.\<close>

definition ensureHexString :: "string \<Rightarrow> string" where
  "ensureHexString v = (if take 2 v = ''0x'' then v else ''0x'' @ v)"

text \<open>
  The reveal guard of both apps,
  \<open>!decryptionTimestamp || currentTime < decryptionTimestamp + 5\<close>: a timestamp that is
  \<open>null\<close> or \<open>0\<close> is falsy.
\<close>

fun falsy :: "int option \<Rightarrow> bool" where
  "falsy None = True"
| "falsy (Some t) = (t = 0)"

fun notReady :: "int option \<Rightarrow> int \<Rightarrow> bool" where
  "notReady None currentTime = True"
| "notReady (Some t) currentTime = (t = 0 \<or> currentTime < t + 5)"

text \<open>The readiness test in the spec's words: \<open>now >= releaseTimestamp + marginSeconds\<close>.\<close>

definition isReady_spec :: "int \<Rightarrow> int \<Rightarrow> int \<Rightarrow> bool" where
  "isReady_spec releaseTimestamp marginSeconds now = (now \<ge> releaseTimestamp + marginSeconds)"

section \<open>The single-party app\<close>

text \<open>The state the two apps share by name, then the rest of the single-party app's state.\<close>

record reveal =
  countdown :: "int option"
  identity :: string
  error :: string

record app = reveal +
  input :: string
  encryptedMessage :: string
  decryptedMessage :: string
  decryptionTimestamp :: "int option"

definition app_init :: app where
  "app_init = \<lparr>countdown = None, identity = '''', error = '''', input = '''',
     encryptedMessage = '''', decryptedMessage = '''', decryptionTimestamp = None\<rparr>"

text \<open>
  The interval callback \<open>setCountdown(prev => prev !== null ? prev - 1 : null)\<close>; the
  effect installs the interval only while \<open>countdown !== null && countdown > 0\<close>.
\<close>

fun decrement :: "int option \<Rightarrow> int option" where
  "decrement None = None"
| "decrement (Some c) = Some (c - 1)"

fun running :: "int option \<Rightarrow> bool" where
  "running None = False"
| "running (Some c) = (c > 0)"


definition encrypt :: "env \<Rightarrow> int \<Rightarrow> string \<Rightarrow> app \<Rightarrow> app outcome" where
  "encrypt env dateNow sigmaHex s =
    (let ts = dateNow div 1000 + DECRYPTION_DELAY;
         s1 = s\<lparr>error := '''', decryptionTimestamp := Some ts,
                countdown := Some (DECRYPTION_DELAY + 2)\<rparr>
     in case fetchShutterData env ts of
          Inl e \<Rightarrow> \<lparr>after = s1, calls = [FetchShutterData ts], thrown = Some e\<rparr>
        | Inr (eon_key, ident) \<Rightarrow>
            (let eonKeyHex = ensureHexString eon_key;
                 identityHex = ensureHexString ident;
                 s2 = s1\<lparr>identity := identityHex\<rparr>;
                 msgHex = stringToHex env (input s)
             in case encryptData env msgHex identityHex eonKeyHex sigmaHex of
                  Inl e \<Rightarrow>
                    \<lparr>after = s2,
                     calls = [FetchShutterData ts,
                              EncryptData msgHex identityHex eonKeyHex sigmaHex],
                     thrown = Some e\<rparr>
                | Inr encryptedCommitment \<Rightarrow>
                    \<lparr>after = s2\<lparr>encryptedMessage := encryptedCommitment\<rparr>,
                     calls = [FetchShutterData ts,
                              EncryptData msgHex identityHex eonKeyHex sigmaHex],
                     thrown = None\<rparr>))"

definition decrypt :: "env \<Rightarrow> int \<Rightarrow> app \<Rightarrow> app outcome" where
  "decrypt env dateNow s =
    (let s0 = s\<lparr>error := ''''\<rparr> in
     if identity s = '''' then
       \<lparr>after = s0\<lparr>error := ''No identity available. Please encrypt a message first.''\<rparr>,
        calls = [], thrown = None\<rparr>
     else if notReady (decryptionTimestamp s) (dateNow div 1000) then
       \<lparr>after = s0\<lparr>error := ''Please wait before decryption key is available''\<rparr>,
        calls = [], thrown = None\<rparr>
     else
       (let failed = s0\<lparr>error := ''Failed to decrypt message. Please try again.''\<rparr> in
        case fetchDecryptionKey env (identity s) of
          Inl e \<Rightarrow> \<lparr>after = failed, calls = [FetchDecryptionKey (identity s)], thrown = None\<rparr>
        | Inr decryption_key \<Rightarrow>
            (let decryptionKey = ensureHexString decryption_key;
                 cs = [FetchDecryptionKey (identity s),
                       ShutterDecrypt (encryptedMessage s) decryptionKey]
             in case shutterDecrypt env (encryptedMessage s) decryptionKey of
                  Inl e \<Rightarrow> \<lparr>after = failed, calls = cs, thrown = None\<rparr>
                | Inr decryptedHexMessage \<Rightarrow>
                    (case hexToString env decryptedHexMessage of
                       Inl e \<Rightarrow> \<lparr>after = failed, calls = cs, thrown = None\<rparr>
                     | Inr text \<Rightarrow>
                         \<lparr>after = s0\<lparr>decryptedMessage := text\<rparr>, calls = cs,
                          thrown = None\<rparr>))))"

section \<open>The game\<close>

datatype Move = rock | paper | scissors

datatype Player = player1 | player2

fun moveString :: "Move \<Rightarrow> string" where
  "moveString rock = ''rock''"
| "moveString paper = ''paper''"
| "moveString scissors = ''scissors''"

fun playerString :: "Player \<Rightarrow> string" where
  "playerString player1 = ''player1''"
| "playerString player2 = ''player2''"

text \<open>A slot's \<open>move\<close> is \<open>Move | ''\<close>: \<open>None\<close> is the empty selection.\<close>

record PlayerState =
  move :: "Move option"
  encryptedMove :: string
  submitted :: bool

record game = reveal +
  players :: "Player \<Rightarrow> PlayerState"
  encryptionTimestamp :: "int option"
  eonKey :: string
  result :: string

definition game_init :: game where
  "game_init = \<lparr>countdown = None, identity = ''0x'', error = '''',
     players = (\<lambda>p. \<lparr>move = None, encryptedMove = '''', submitted = False\<rparr>),
     encryptionTimestamp = None, eonKey = ''0x'', result = ''''\<rparr>"

text \<open>
  \<open>handleMoveChange\<close> is called with the value of the select element, which also offers
  the empty selection.
\<close>

definition handleMoveChange :: "Player \<Rightarrow> Move option \<Rightarrow> game \<Rightarrow> game" where
  "handleMoveChange player mv s =
     s\<lparr>players := (players s)(player := (players s player)\<lparr>move := mv\<rparr>)\<rparr>"

text \<open>
  \<open>determineWinner\<close> receives the decrypted texts, cast to \<open>Move\<close> without a check, so
  it is a function on strings; \<open>winningCombinations\<close> is the object literal it looks up.
\<close>

definition winningCombinations :: "string \<rightharpoonup> string" where
  "winningCombinations =
     [''rock'' \<mapsto> ''scissors'', ''paper'' \<mapsto> ''rock'', ''scissors'' \<mapsto> ''paper'']"

definition determineWinner :: "string \<Rightarrow> string \<Rightarrow> string" where
  "determineWinner move1 move2 =
     (if move1 = move2 then ''It's a tie!''
      else if winningCombinations move1 = Some move2 then ''Player 1 wins!''
      else ''Player 2 wins!'')"

text \<open>
  Lines 98 to 120 of \<open>submitMove\<close>: encrypt the move under the pair held in
  \<open>identityHexHolder\<close> and \<open>eonKeyHexHolder\<close>, store the commitment in the slot and
  start the countdown once both slots are submitted. \<open>cs\<close> are the calls issued so far.
\<close>

definition encryptAndStore ::
  "env \<Rightarrow> string \<Rightarrow> Player \<Rightarrow> Move \<Rightarrow> string \<Rightarrow> string \<Rightarrow> call list \<Rightarrow> game \<Rightarrow> game outcome" where
  "encryptAndStore env sigmaHex player mv identityHexHolder eonKeyHexHolder cs s =
    (let msgHex = stringToHex env (moveString mv);
         cs' = cs @ [EncryptData msgHex identityHexHolder eonKeyHexHolder sigmaHex]
     in case encryptData env msgHex identityHexHolder eonKeyHexHolder sigmaHex of
          Inl e \<Rightarrow> \<lparr>after = s, calls = cs', thrown = Some e\<rparr>
        | Inr encryptedMove' \<Rightarrow>
            (let newState = (players s)(player :=
                   (players s player)\<lparr>encryptedMove := encryptedMove', submitted := True\<rparr>);
                 s' = s\<lparr>players := newState\<rparr>
             in \<lparr>after = (if submitted (newState player1) \<and> submitted (newState player2)
                          then s'\<lparr>countdown := Some (DECRYPTION_DELAY + 2)\<rparr> else s'),
                 calls = cs', thrown = None\<rparr>))"

definition submitMove :: "env \<Rightarrow> int \<Rightarrow> string \<Rightarrow> Player \<Rightarrow> game \<Rightarrow> game outcome" where
  "submitMove env dateNow sigmaHex player s =
    (let s0 = s\<lparr>error := ''''\<rparr> in
     case move (players s player) of
       None \<Rightarrow>
         \<lparr>after = s0\<lparr>error := ''Please select a move for '' @ playerString player\<rparr>,
          calls = [], thrown = None\<rparr>
     | Some mv \<Rightarrow>
         if falsy (encryptionTimestamp s) then
           (let ts = dateNow div 1000 + DECRYPTION_DELAY;
                s1 = s0\<lparr>encryptionTimestamp := Some ts\<rparr>
            in case fetchShutterData env ts of
                 Inl e \<Rightarrow> \<lparr>after = s1, calls = [FetchShutterData ts], thrown = Some e\<rparr>
               | Inr (eon_key, ident) \<Rightarrow>
                   (let identityHex = ensureHexString ident;
                        eonKeyHex = ensureHexString eon_key;
                        s2 = s1\<lparr>identity := identityHex, eonKey := eonKeyHex\<rparr>
                    in encryptAndStore env sigmaHex player mv identityHex eonKeyHex
                         [FetchShutterData ts] s2))
         else encryptAndStore env sigmaHex player mv (identity s) (eonKey s) [] s0)"

definition decryptMoves :: "env \<Rightarrow> int \<Rightarrow> game \<Rightarrow> game outcome" where
  "decryptMoves env dateNow s =
    (if identity s = '''' then
       \<lparr>after = s\<lparr>error := ''No identity available. Please try submitting moves again.''\<rparr>,
        calls = [], thrown = None\<rparr>
     else if notReady (encryptionTimestamp s) (dateNow div 1000) then
       \<lparr>after = s\<lparr>error := ''Please wait before decryption key is available''\<rparr>,
        calls = [], thrown = None\<rparr>
     else
       (let failed = s\<lparr>error := ''Failed to decrypt moves. Please try again.''\<rparr>;
            c0 = [FetchDecryptionKey (identity s)]
        in case fetchDecryptionKey env (identity s) of
          Inl e \<Rightarrow> \<lparr>after = failed, calls = c0, thrown = None\<rparr>
        | Inr decryption_key \<Rightarrow>
            (let decryptionKey = ensureHexString decryption_key;
                 c1 = c0 @ [ShutterDecrypt (encryptedMove (players s player1)) decryptionKey];
                 c2 = c1 @ [ShutterDecrypt (encryptedMove (players s player2)) decryptionKey]
             in case shutterDecrypt env (encryptedMove (players s player1)) decryptionKey of
                  Inl e \<Rightarrow> \<lparr>after = failed, calls = c1, thrown = None\<rparr>
                | Inr hex1 \<Rightarrow>
                   (case hexToString env hex1 of
                      Inl e \<Rightarrow> \<lparr>after = failed, calls = c1, thrown = None\<rparr>
                    | Inr decryptedMove1 \<Rightarrow>
                       (case shutterDecrypt env (encryptedMove (players s player2))
                               decryptionKey of
                          Inl e \<Rightarrow> \<lparr>after = failed, calls = c2, thrown = None\<rparr>
                        | Inr hex2 \<Rightarrow>
                           (case hexToString env hex2 of
                              Inl e \<Rightarrow> \<lparr>after = failed, calls = c2, thrown = None\<rparr>
                            | Inr decryptedMove2 \<Rightarrow>
                                \<lparr>after = s\<lparr>result :=
                                    determineWinner decryptedMove1 decryptedMove2\<rparr>,
                                 calls = c2, thrown = None\<rparr>))))))"

text \<open>
  The countdown effect of the game: while the countdown is positive the interval
  decrements it; the effect then runs again with the new value and calls
  \<open>decryptMoves\<close> when that value is 0.
\<close>

definition gameTick :: "env \<Rightarrow> int \<Rightarrow> game \<Rightarrow> game outcome" where
  "gameTick env dateNow s =
    (if running (countdown s) then
       (let s1 = s\<lparr>countdown := decrement (countdown s)\<rparr>
        in if countdown s1 = Some 0 then decryptMoves env dateNow s1
           else \<lparr>after = s1, calls = [], thrown = None\<rparr>)
     else \<lparr>after = s, calls = [], thrown = None\<rparr>)"

subsection \<open>Sessions of the game\<close>

text \<open>
  What can happen to the game component: a change of a select element, a click on a
  submit button (with the value of \<open>Date.now()\<close> and the sigma drawn in that call), and a
  firing of the countdown interval (with the value of \<open>Date.now()\<close> read if
  \<open>decryptMoves\<close> runs).
\<close>

datatype action =
    HandleMoveChange Player "Move option"
  | SubmitMove Player int string
  | Tick int

fun perform :: "env \<Rightarrow> action \<Rightarrow> game \<Rightarrow> game outcome" where
  "perform env (HandleMoveChange player mv) s =
     \<lparr>after = handleMoveChange player mv s, calls = [], thrown = None\<rparr>"
| "perform env (SubmitMove player dateNow sigmaHex) s = submitMove env dateNow sigmaHex player s"
| "perform env (Tick dateNow) s = gameTick env dateNow s"

text \<open>
  The submit button of a slot is rendered with \<open>disabled={players.playerN.submitted}\<close>;
  the select elements are never disabled.
\<close>

fun offered :: "game \<Rightarrow> action \<Rightarrow> bool" where
  "offered s (SubmitMove player dateNow sigmaHex) = (\<not> submitted (players s player))"
| "offered s (HandleMoveChange player mv) = True"
| "offered s (Tick dateNow) = True"

subsection \<open>\<open>submitMove\<close>, await by await\<close>

text \<open>
  \<open>submitMove\<close> is an async function: it gives way at \<open>await fetchShutterData\<close>
  (line 87) and at \<open>await encryptData\<close> (line 101), and the page handles other events in
  between, on the state as written so far. A task is a suspended \<open>submitMove\<close> with what
  its closure holds: at the registration the player, the move read from the \<open>players\<close> of
  the click, the timestamp sent and the sigma it will draw; at the encryption the player
  and the four arguments of the call.
\<close>

datatype task =
    AwaitRegistration Player Move int string
  | AwaitEncryption Player string string string string

text \<open>
  Lines 103 to 120: the updater given to \<open>setPlayers\<close>, applied to the state of the
  moment it runs in.
\<close>

definition storeCommitment :: "Player \<Rightarrow> string \<Rightarrow> game \<Rightarrow> game" where
  "storeCommitment player encryptedMove' s =
    (let newState = (players s)(player :=
           (players s player)\<lparr>encryptedMove := encryptedMove', submitted := True\<rparr>);
         s' = s\<lparr>players := newState\<rparr>
     in if submitted (newState player1) \<and> submitted (newState player2)
        then s'\<lparr>countdown := Some (DECRYPTION_DELAY + 2)\<rparr> else s')"

text \<open>
  What runs within the click: lines 71 to 87 when no release timestamp is found, where the
  timestamp is written before the registration is awaited, and lines 71 to 101 otherwise.
  A call is listed when it is issued.
\<close>

definition submitMove_begin ::
  "env \<Rightarrow> int \<Rightarrow> string \<Rightarrow> Player \<Rightarrow> game \<Rightarrow> game outcome \<times> task option" where
  "submitMove_begin env dateNow sigmaHex player s =
    (let s0 = s\<lparr>error := ''''\<rparr> in
     case move (players s player) of
       None \<Rightarrow>
         (\<lparr>after = s0\<lparr>error := ''Please select a move for '' @ playerString player\<rparr>,
           calls = [], thrown = None\<rparr>, None)
     | Some mv \<Rightarrow>
         if falsy (encryptionTimestamp s) then
           (let ts = dateNow div 1000 + DECRYPTION_DELAY
            in (\<lparr>after = s0\<lparr>encryptionTimestamp := Some ts\<rparr>,
                 calls = [FetchShutterData ts], thrown = None\<rparr>,
                Some (AwaitRegistration player mv ts sigmaHex)))
         else
           (let msgHex = stringToHex env (moveString mv)
            in (\<lparr>after = s0,
                 calls = [EncryptData msgHex (identity s) (eonKey s) sigmaHex],
                 thrown = None\<rparr>,
                Some (AwaitEncryption player msgHex (identity s) (eonKey s) sigmaHex))))"

text \<open>
  What runs when the awaited call settles: after the registration lines 90 to 101, which
  write the pair and issue the encryption; after the encryption lines 103 to 120. A call
  that fails ends the handler with its exception.
\<close>

fun resume :: "env \<Rightarrow> task \<Rightarrow> game \<Rightarrow> game outcome \<times> task option" where
  "resume env (AwaitRegistration player mv ts sigmaHex) s =
     (case fetchShutterData env ts of
        Inl e \<Rightarrow> (\<lparr>after = s, calls = [], thrown = Some e\<rparr>, None)
      | Inr (eon_key, ident) \<Rightarrow>
          (let identityHex = ensureHexString ident;
               eonKeyHex = ensureHexString eon_key;
               msgHex = stringToHex env (moveString mv)
           in (\<lparr>after = s\<lparr>identity := identityHex, eonKey := eonKeyHex\<rparr>,
                calls = [EncryptData msgHex identityHex eonKeyHex sigmaHex],
                thrown = None\<rparr>,
               Some (AwaitEncryption player msgHex identityHex eonKeyHex sigmaHex))))"
| "resume env (AwaitEncryption player msgHex identityHexHolder eonKeyHexHolder sigmaHex) s =
     (case encryptData env msgHex identityHexHolder eonKeyHexHolder sigmaHex of
        Inl e \<Rightarrow> (\<lparr>after = s, calls = [], thrown = Some e\<rparr>, None)
      | Inr encryptedMove' \<Rightarrow>
          (\<lparr>after = storeCommitment player encryptedMove' s, calls = [], thrown = None\<rparr>,
           None))"

text \<open>One more stretch of a handler that nothing interrupts.\<close>

definition proceed :: "env \<Rightarrow> game outcome \<times> task option \<Rightarrow> game outcome \<times> task option" where
  "proceed env x =
    (case snd x of
       None \<Rightarrow> x
     | Some t \<Rightarrow>
         (let y = resume env t (after (fst x))
          in (\<lparr>after = after (fst y), calls = calls (fst x) @ calls (fst y),
               thrown = thrown (fst y)\<rparr>, snd y)))"

text \<open>
  The page with its suspended handlers. An event is a change of a select element, a click
  on a submit button (it does nothing on a disabled button), or the settling of the
  awaited call of one of the suspended handlers. \<open>play\<close> gives the page after a list of
  events and the external calls issued, in order.
\<close>

datatype event =
    Select Player "Move option"
  | Click Player int string
  | Settle nat

fun pendingTask :: "task option \<Rightarrow> task list" where
  "pendingTask None = []"
| "pendingTask (Some t) = [t]"

fun react :: "env \<Rightarrow> event \<Rightarrow> game \<times> task list \<Rightarrow> (game \<times> task list) \<times> call list" where
  "react env (Select player mv) (s, ts) = ((handleMoveChange player mv s, ts), [])"
| "react env (Click player dateNow sigmaHex) (s, ts) =
     (if submitted (players s player) then ((s, ts), [])
      else (let x = submitMove_begin env dateNow sigmaHex player s
            in ((after (fst x), ts @ pendingTask (snd x)), calls (fst x))))"
| "react env (Settle i) (s, ts) =
     (if i < length ts then
        (let x = resume env (ts ! i) s
         in ((after (fst x), take i ts @ drop (Suc i) ts @ pendingTask (snd x)),
             calls (fst x)))
      else ((s, ts), []))"

fun play :: "env \<Rightarrow> event list \<Rightarrow> game \<times> task list \<Rightarrow> (game \<times> task list) \<times> call list" where
  "play env [] page = (page, [])"
| "play env (e # es) page =
     (let x = react env e page; y = play env es (fst x)
      in (fst y, snd x @ snd y))"

section \<open>The hello-world variant\<close>

text \<open>
  The state of the hello-world component is \<open>input\<close> and \<open>output\<close>; the fields are
  \<open>helloInput\<close> and \<open>helloOutput\<close> here, since \<open>input\<close> is a field of the single-party
  app above.
\<close>

record hello =
  helloInput :: string
  helloOutput :: string

text \<open>
  \<open>decrypt\<close> of \<open>src/hello-world/src/App.tsx\<close>; the platform's \<open>atob\<close> is a parameter
  and throws on an input that is not Base64.
\<close>

definition helloDecrypt :: "(string \<Rightarrow> exn + string) \<Rightarrow> hello \<Rightarrow> hello outcome" where
  "helloDecrypt atob s =
    (case atob (helloInput s) of
       Inr decrypted \<Rightarrow>
         \<lparr>after = s\<lparr>helloOutput := ''Decrypted: '' @ decrypted\<rparr>, calls = [], thrown = None\<rparr>
     | Inl e \<Rightarrow>
         \<lparr>after = s\<lparr>helloOutput := ''Decryption failed: Invalid input''\<rparr>, calls = [],
          thrown = None\<rparr>)"

section \<open>Stubs and sample states for concrete runs\<close>

text \<open>
  A stub of the collaborators in which every call succeeds, and variants in which the
  registration call fails with a transport error and in which the key is not yet
  published.
\<close>

definition stub_env :: env where
  "stub_env = \<lparr>fetchShutterData = (\<lambda>ts. Inr (''e0'', ''1d'')),
     fetchDecryptionKey = (\<lambda>i. Inr ''ab''),
     encryptData = (\<lambda>m i k g. Inr (''c'' @ m)),
     shutterDecrypt = (\<lambda>c k. Inr (drop 1 c)),
     stringToHex = (\<lambda>t. ''0x'' @ t),
     hexToString = (\<lambda>h. Inr (drop 2 h))\<rparr>"

definition stub_env_no_registration :: env where
  "stub_env_no_registration = stub_env\<lparr>fetchShutterData := (\<lambda>ts. Inl TransportError)\<rparr>"

definition stub_env_key_not_yet :: env where
  "stub_env_key_not_yet = stub_env\<lparr>fetchDecryptionKey := (\<lambda>i. Inl KeyNotYetAvailable)\<rparr>"

text \<open>
  The single-party app after the text \<open>hello\<close> was entered and encrypted at second 1000:
  the release timestamp is 1120.
\<close>

definition app_committed :: app where
  "app_committed = after (encrypt stub_env 1000000 ''5a'' (app_init\<lparr>input := ''hello''\<rparr>))"

text \<open>
  The game after player 1 chose rock and submitted at second 1000, and after player 2
  then chose scissors and submitted at second 1001.
\<close>

definition game_one_submitted :: game where
  "game_one_submitted =
     after (submitMove stub_env 1000000 ''5a'' player1
       (handleMoveChange player1 (Some rock) game_init))"

definition game_both_submitted :: game where
  "game_both_submitted =
     after (submitMove stub_env 1001000 ''5b'' player2
       (handleMoveChange player2 (Some scissors) game_one_submitted))"

text \<open>
  Both players have chosen; player 1 clicks at second 1000; player 2 clicks half a second
  later, while the registration of player 1 is awaited; then the registration settles,
  then the encryption for player 2, then the encryption for player 1.
\<close>

definition overlapping_session :: "event list" where
  "overlapping_session =
     [Select player1 (Some rock), Select player2 (Some scissors),
      Click player1 1000000 ''5a'', Click player2 1000500 ''5b'',
      Settle 0, Settle 0, Settle 0]"

text \<open>
  The game after player 1 chose rock and submitted at second 1000 with a registration
  call that ended in a transport error.
\<close>

definition game_registration_failed :: game where
  "game_registration_failed =
     after (submitMove stub_env_no_registration 1000000 ''5a'' player1
       (handleMoveChange player1 (Some rock) game_init))"

text \<open>
  A stub of \<open>atob\<close> for the two inputs of the examples: it decodes the one Base64 text
  and rejects the other input, which is not Base64.
\<close>

definition stub_atob :: "string \<Rightarrow> exn + string" where
  "stub_atob v = (if v = ''aGk='' then Inr ''hi'' else Inl InvalidCharacterError)"

section \<open>The sample states, evaluated\<close>

lemma app_committed_eval:
  "app_committed = \<lparr>countdown = Some 122, identity = ''0x1d'', error = '''',
     input = ''hello'', encryptedMessage = ''c0xhello'', decryptedMessage = '''',
     decryptionTimestamp = Some 1120\<rparr>"
  by (simp add: app_committed_def encrypt_def stub_env_def app_init_def
      DECRYPTION_DELAY_def ensureHexString_def Let_def)

lemma game_one_submitted_eval:
  "countdown game_one_submitted = None"
  "identity game_one_submitted = ''0x1d''"
  "eonKey game_one_submitted = ''0xe0''"
  "error game_one_submitted = ''''"
  "result game_one_submitted = ''''"
  "encryptionTimestamp game_one_submitted = Some 1120"
  "players game_one_submitted player1 =
     \<lparr>move = Some rock, encryptedMove = ''c0xrock'', submitted = True\<rparr>"
  "players game_one_submitted player2 =
     \<lparr>move = None, encryptedMove = '''', submitted = False\<rparr>"
  by (simp_all add: game_one_submitted_def submitMove_def encryptAndStore_def
      handleMoveChange_def stub_env_def game_init_def DECRYPTION_DELAY_def
      ensureHexString_def Let_def)

lemma game_both_submitted_eval:
  "countdown game_both_submitted = Some 122"
  "identity game_both_submitted = ''0x1d''"
  "eonKey game_both_submitted = ''0xe0''"
  "error game_both_submitted = ''''"
  "result game_both_submitted = ''''"
  "encryptionTimestamp game_both_submitted = Some 1120"
  "players game_both_submitted player1 =
     \<lparr>move = Some rock, encryptedMove = ''c0xrock'', submitted = True\<rparr>"
  "players game_both_submitted player2 =
     \<lparr>move = Some scissors, encryptedMove = ''c0xscissors'', submitted = True\<rparr>"
  by (simp_all add: game_both_submitted_def submitMove_def encryptAndStore_def
      handleMoveChange_def stub_env_def game_one_submitted_eval DECRYPTION_DELAY_def
      Let_def)

section \<open>The reveal guard\<close>

lemma decrypt_blocked:
  "notReady (decryptionTimestamp s) (dateNow div 1000) \<Longrightarrow>
   calls (decrypt env dateNow s) = [] \<and> thrown (decrypt env dateNow s) = None
   \<and> error (after (decrypt env dateNow s)) \<noteq> ''''
   \<and> after (decrypt env dateNow s) = s\<lparr>error := error (after (decrypt env dateNow s))\<rparr>"
  by (simp add: decrypt_def Let_def)

lemma decryptMoves_blocked:
  "notReady (encryptionTimestamp g) (dateNow div 1000) \<Longrightarrow>
   calls (decryptMoves env dateNow g) = [] \<and> thrown (decryptMoves env dateNow g) = None
   \<and> error (after (decryptMoves env dateNow g)) \<noteq> ''''
   \<and> after (decryptMoves env dateNow g) =
       g\<lparr>error := error (after (decryptMoves env dateNow g))\<rparr>"
  by (simp add: decryptMoves_def Let_def)

lemma passed_guard: "\<not> notReady t now \<Longrightarrow> \<exists>R. t = Some R \<and> R \<noteq> 0 \<and> R + 5 \<le> now"
  by (cases t) auto

lemma decrypt_fetch_ready:
  "FetchDecryptionKey k \<in> set (calls (decrypt env dateNow s)) \<Longrightarrow>
   \<not> notReady (decryptionTimestamp s) (dateNow div 1000)"
  using decrypt_blocked [of s dateNow env] by auto

lemma decryptMoves_fetch_ready:
  "FetchDecryptionKey k \<in> set (calls (decryptMoves env dateNow g)) \<Longrightarrow>
   \<not> notReady (encryptionTimestamp g) (dateNow div 1000)"
  using decryptMoves_blocked [of g dateNow env] by auto

lemma gameTick_fetch_ready:
  "FetchDecryptionKey k \<in> set (calls (gameTick env dateNow g)) \<Longrightarrow>
   \<not> notReady (encryptionTimestamp g) (dateNow div 1000)"
  using decryptMoves_fetch_ready [of k env dateNow "g\<lparr>countdown := decrement (countdown g)\<rparr>"]
  by (auto simp add: gameTick_def Let_def split: if_splits)

text \<open>
  C1. In the reveal flow (\<open>decrypt\<close> of the single-party app, \<open>decryptMoves\<close> of the game,
  also when the countdown effect calls it) a call of \<open>fetchDecryptionKey\<close> is issued only
  when a release timestamp is set and the current second is at least that timestamp plus 5.
  Whenever the current second is below the release timestamp plus 5, the operation issues
  no external call at all, ends normally with a non-empty error message, and leaves every
  other part of the state as it was.
\<close>

theorem no_key_fetch_before_ready:
  "(FetchDecryptionKey k \<in> set (calls (decrypt env dateNow s)) \<longrightarrow>
      (\<exists>R. decryptionTimestamp s = Some R \<and> R + 5 \<le> dateNow div 1000))
   \<and> (FetchDecryptionKey k \<in> set (calls (decryptMoves env dateNow g)) \<longrightarrow>
      (\<exists>R. encryptionTimestamp g = Some R \<and> R + 5 \<le> dateNow div 1000))
   \<and> (FetchDecryptionKey k \<in> set (calls (gameTick env dateNow g)) \<longrightarrow>
      (\<exists>R. encryptionTimestamp g = Some R \<and> R + 5 \<le> dateNow div 1000))
   \<and> (decryptionTimestamp s = Some R' \<and> dateNow div 1000 < R' + 5 \<longrightarrow>
        calls (decrypt env dateNow s) = [] \<and> thrown (decrypt env dateNow s) = None
        \<and> error (after (decrypt env dateNow s)) \<noteq> ''''
        \<and> after (decrypt env dateNow s) =
            s\<lparr>error := error (after (decrypt env dateNow s))\<rparr>)
   \<and> (encryptionTimestamp g = Some R' \<and> dateNow div 1000 < R' + 5 \<longrightarrow>
        calls (decryptMoves env dateNow g) = [] \<and> thrown (decryptMoves env dateNow g) = None
        \<and> error (after (decryptMoves env dateNow g)) \<noteq> ''''
        \<and> after (decryptMoves env dateNow g) =
            g\<lparr>error := error (after (decryptMoves env dateNow g))\<rparr>)"
proof -
  have a: "FetchDecryptionKey k \<in> set (calls (decrypt env dateNow s)) \<longrightarrow>
      (\<exists>R. decryptionTimestamp s = Some R \<and> R + 5 \<le> dateNow div 1000)"
    using decrypt_fetch_ready [of k env dateNow s]
      passed_guard [of "decryptionTimestamp s" "dateNow div 1000"] by blast
  have b: "FetchDecryptionKey k \<in> set (calls (decryptMoves env dateNow g)) \<longrightarrow>
      (\<exists>R. encryptionTimestamp g = Some R \<and> R + 5 \<le> dateNow div 1000)"
    using decryptMoves_fetch_ready [of k env dateNow g]
      passed_guard [of "encryptionTimestamp g" "dateNow div 1000"] by blast
  have c: "FetchDecryptionKey k \<in> set (calls (gameTick env dateNow g)) \<longrightarrow>
      (\<exists>R. encryptionTimestamp g = Some R \<and> R + 5 \<le> dateNow div 1000)"
    using gameTick_fetch_ready [of k env dateNow g]
      passed_guard [of "encryptionTimestamp g" "dateNow div 1000"] by blast
  have d: "decryptionTimestamp s = Some R' \<and> dateNow div 1000 < R' + 5 \<longrightarrow>
        calls (decrypt env dateNow s) = [] \<and> thrown (decrypt env dateNow s) = None
        \<and> error (after (decrypt env dateNow s)) \<noteq> ''''
        \<and> after (decrypt env dateNow s) =
            s\<lparr>error := error (after (decrypt env dateNow s))\<rparr>"
    using decrypt_blocked [of s dateNow env] by simp
  have e: "encryptionTimestamp g = Some R' \<and> dateNow div 1000 < R' + 5 \<longrightarrow>
        calls (decryptMoves env dateNow g) = [] \<and> thrown (decryptMoves env dateNow g) = None
        \<and> error (after (decryptMoves env dateNow g)) \<noteq> ''''
        \<and> after (decryptMoves env dateNow g) =
            g\<lparr>error := error (after (decryptMoves env dateNow g))\<rparr>"
    using decryptMoves_blocked [of g dateNow env] by simp
  from a b c d e show ?thesis by blast
qed

theorem no_key_fetch_before_ready_witness:
  "FetchDecryptionKey ''0x1d'' \<in> set (calls (decrypt stub_env 1125000 app_committed))
   \<and> FetchDecryptionKey ''0x1d'' \<in> set (calls (decryptMoves stub_env 1125000 game_both_submitted))
   \<and> decryptionTimestamp app_committed = Some 1120 \<and> (1120::int) + 5 \<le> 1125000 div 1000
   \<and> encryptionTimestamp game_both_submitted = Some 1120 \<and> (1124000::int) div 1000 < 1120 + 5
   \<and> calls (decrypt stub_env 1124000 app_committed) = []
   \<and> after (decrypt stub_env 1124000 app_committed) =
        app_committed\<lparr>error := ''Please wait before decryption key is available''\<rparr>
   \<and> calls (decryptMoves stub_env 1124000 game_both_submitted) = []
   \<and> after (decryptMoves stub_env 1124000 game_both_submitted) =
        game_both_submitted\<lparr>error := ''Please wait before decryption key is available''\<rparr>"
  using no_key_fetch_before_ready
          [of "''0x1d''" stub_env 1125000 app_committed game_both_submitted 1120]
        no_key_fetch_before_ready
          [of "''0x1d''" stub_env 1124000 app_committed game_both_submitted 1120]
  by (simp add: decrypt_def decryptMoves_def app_committed_eval game_both_submitted_eval
      stub_env_def ensureHexString_def Let_def)

lemma stored_timestamp_positive: "0 \<le> d \<Longrightarrow> 0 < d div 1000 + DECRYPTION_DELAY"
proof -
  assume "0 \<le> d"
  then have "0 \<le> d div 1000" by (simp add: pos_imp_zdiv_nonneg_iff)
  then show ?thesis by (simp add: DECRYPTION_DELAY_def)
qed

lemma encrypt_timestamp:
  "decryptionTimestamp (after (encrypt env dateNow sigmaHex s)) = Some (dateNow div 1000 + DECRYPTION_DELAY)"
  by (simp add: encrypt_def Let_def split: sum.splits prod.splits)

lemma submitMove_timestamp:
  "falsy (encryptionTimestamp g) \<Longrightarrow> move (players g player) = Some mv \<Longrightarrow>
   encryptionTimestamp (after (submitMove env dateNow sigmaHex player g)) = Some (dateNow div 1000 + DECRYPTION_DELAY)"
  by (simp add: submitMove_def encryptAndStore_def Let_def split: sum.splits prod.splits)

text \<open>
  C2. For every release timestamp R after the epoch and every current time, the reveal
  guard blocks exactly when now < R + 5 and passes exactly when now >= R + 5, which is the
  spec's readiness test with margin 5. Under a clock that reads no time before 1970 the
  release timestamp that \<open>encrypt\<close> stores, and the one that a \<open>submitMove\<close> without
  a timestamp stores, is such a timestamp, and the guard on the stored timestamp is that
  test.
\<close>

theorem guard_is_readiness_with_margin_5:
  "(0 < R \<longrightarrow>
      notReady (Some R) now = (now < R + 5)
      \<and> (\<not> notReady (Some R) now) = (now \<ge> R + 5)
      \<and> (\<not> notReady (Some R) now) = isReady_spec R 5 now)
   \<and> (0 \<le> dateNow \<longrightarrow>
        decryptionTimestamp (after (encrypt env dateNow sigmaHex s))
          = Some (dateNow div 1000 + DECRYPTION_DELAY)
        \<and> notReady (decryptionTimestamp (after (encrypt env dateNow sigmaHex s))) now
            = (now < dateNow div 1000 + DECRYPTION_DELAY + 5)
        \<and> (\<not> notReady (decryptionTimestamp (after (encrypt env dateNow sigmaHex s))) now)
            = isReady_spec (dateNow div 1000 + DECRYPTION_DELAY) 5 now)
   \<and> (0 \<le> dateNow \<and> falsy (encryptionTimestamp g) \<and> move (players g player) = Some mv \<longrightarrow>
        encryptionTimestamp (after (submitMove env dateNow sigmaHex player g))
          = Some (dateNow div 1000 + DECRYPTION_DELAY)
        \<and> notReady (encryptionTimestamp (after (submitMove env dateNow sigmaHex player g))) now
            = (now < dateNow div 1000 + DECRYPTION_DELAY + 5)
        \<and> (\<not> notReady (encryptionTimestamp (after (submitMove env dateNow sigmaHex player g))) now)
            = isReady_spec (dateNow div 1000 + DECRYPTION_DELAY) 5 now)"
proof -
  have a: "0 < R \<longrightarrow>
      notReady (Some R) now = (now < R + 5)
      \<and> (\<not> notReady (Some R) now) = (now \<ge> R + 5)
      \<and> (\<not> notReady (Some R) now) = isReady_spec R 5 now"
    by (auto simp add: isReady_spec_def)
  have g: "notReady (Some (dateNow div 1000 + DECRYPTION_DELAY)) now
             = (now < dateNow div 1000 + DECRYPTION_DELAY + 5)" if "0 \<le> dateNow"
    using stored_timestamp_positive [OF that] by simp
  have b: "0 \<le> dateNow \<longrightarrow>
        decryptionTimestamp (after (encrypt env dateNow sigmaHex s))
          = Some (dateNow div 1000 + DECRYPTION_DELAY)
        \<and> notReady (decryptionTimestamp (after (encrypt env dateNow sigmaHex s))) now
            = (now < dateNow div 1000 + DECRYPTION_DELAY + 5)
        \<and> (\<not> notReady (decryptionTimestamp (after (encrypt env dateNow sigmaHex s))) now)
            = isReady_spec (dateNow div 1000 + DECRYPTION_DELAY) 5 now"
    using g by (auto simp add: encrypt_timestamp isReady_spec_def)
  have c: "0 \<le> dateNow \<and> falsy (encryptionTimestamp g) \<and> move (players g player) = Some mv \<longrightarrow>
        encryptionTimestamp (after (submitMove env dateNow sigmaHex player g))
          = Some (dateNow div 1000 + DECRYPTION_DELAY)
        \<and> notReady (encryptionTimestamp (after (submitMove env dateNow sigmaHex player g))) now
            = (now < dateNow div 1000 + DECRYPTION_DELAY + 5)
        \<and> (\<not> notReady (encryptionTimestamp (after (submitMove env dateNow sigmaHex player g))) now)
            = isReady_spec (dateNow div 1000 + DECRYPTION_DELAY) 5 now"
    using g by (auto simp add: submitMove_timestamp isReady_spec_def)
  from a b c show ?thesis by blast
qed

theorem guard_is_readiness_with_margin_5_witness:
  "(0::int) < 1120 \<and> notReady (Some 1120) 1124 \<and> \<not> notReady (Some 1120) 1125
   \<and> \<not> isReady_spec 1120 5 1124 \<and> isReady_spec 1120 5 1125
   \<and> (0::int) \<le> 1000000
   \<and> decryptionTimestamp (after (encrypt stub_env 1000000 ''5a'' app_init)) = Some 1120
   \<and> notReady (decryptionTimestamp (after (encrypt stub_env 1000000 ''5a'' app_init))) 1124
   \<and> \<not> notReady (decryptionTimestamp (after (encrypt stub_env 1000000 ''5a'' app_init))) 1125
   \<and> falsy (encryptionTimestamp (handleMoveChange player1 (Some rock) game_init))
   \<and> move (players (handleMoveChange player1 (Some rock) game_init) player1) = Some rock
   \<and> encryptionTimestamp game_one_submitted = Some 1120
   \<and> notReady (encryptionTimestamp game_one_submitted) 1124
   \<and> \<not> notReady (encryptionTimestamp game_one_submitted) 1125"
  using guard_is_readiness_with_margin_5
          [of 1120 1124 1000000 stub_env "''5a''" app_init
              "handleMoveChange player1 (Some rock) game_init" player1 rock]
        guard_is_readiness_with_margin_5
          [of 1120 1125 1000000 stub_env "''5a''" app_init
              "handleMoveChange player1 (Some rock) game_init" player1 rock]
  by (simp add: game_one_submitted_def [symmetric] game_one_submitted_eval
      handleMoveChange_def game_init_def DECRYPTION_DELAY_def isReady_spec_def)

section \<open>The outcome of a game\<close>

text \<open>
  C4. \<open>determineWinner\<close> gives one of its three results on each of the 9 ordered pairs
  of moves; the result is the tie exactly when the two moves are equal; player 1 wins
  exactly when the first move beats the second (rock beats scissors, scissors beats paper,
  paper beats rock); swapping the two moves swaps the declared winner and keeps a tie;
  rock against scissors is a win of player 1, scissors against rock a win of player 2.
\<close>

theorem determineWinner_total_and_symmetric:
  "determineWinner (moveString a) (moveString b)
     \<in> {''It's a tie!'', ''Player 1 wins!'', ''Player 2 wins!''}
   \<and> (determineWinner (moveString a) (moveString b) = ''It's a tie!'') = (a = b)
   \<and> (determineWinner (moveString a) (moveString b) = ''Player 1 wins!'') =
       ((a, b) \<in> {(rock, scissors), (scissors, paper), (paper, rock)})
   \<and> (determineWinner (moveString a) (moveString b) = ''Player 2 wins!'') =
       ((b, a) \<in> {(rock, scissors), (scissors, paper), (paper, rock)})
   \<and> (determineWinner (moveString a) (moveString b) = ''Player 1 wins!'' \<longrightarrow>
        determineWinner (moveString b) (moveString a) = ''Player 2 wins!'')
   \<and> (determineWinner (moveString a) (moveString b) = ''Player 2 wins!'' \<longrightarrow>
        determineWinner (moveString b) (moveString a) = ''Player 1 wins!'')
   \<and> (determineWinner (moveString a) (moveString b) = ''It's a tie!'' \<longrightarrow>
        determineWinner (moveString b) (moveString a) = ''It's a tie!'')
   \<and> determineWinner (moveString rock) (moveString scissors) = ''Player 1 wins!''
   \<and> determineWinner (moveString scissors) (moveString rock) = ''Player 2 wins!''"
  by (cases a; cases b; simp add: determineWinner_def winningCombinations_def)

theorem determineWinner_total_and_symmetric_witness:
  "determineWinner (moveString paper) (moveString rock) = ''Player 1 wins!''
   \<and> determineWinner (moveString rock) (moveString paper) = ''Player 2 wins!''
   \<and> determineWinner (moveString paper) (moveString paper) = ''It's a tie!''"
  using determineWinner_total_and_symmetric [of paper rock]
        determineWinner_total_and_symmetric [of paper paper]
  by simp

section \<open>The hello-world variant decodes Base64 only\<close>

text \<open>
  C10. \<open>decrypt\<close> of the hello-world variant issues no external call (no key fetch, no
  Shutter decryption) and never throws. When \<open>atob\<close> accepts the input field, the output
  is \<open>Decrypted: \<close> followed by what \<open>atob\<close> returned; when \<open>atob\<close> throws, the output
  is \<open>Decryption failed: Invalid input\<close>. The input field is left as it was, and two
  states with the same input field get the same output: nothing else is read.
\<close>

theorem helloDecrypt_is_base64_decoding:
  "calls (helloDecrypt atob s) = [] \<and> thrown (helloDecrypt atob s) = None
   \<and> helloInput (after (helloDecrypt atob s)) = helloInput s
   \<and> (atob (helloInput s) = Inr decoded \<longrightarrow>
        helloOutput (after (helloDecrypt atob s)) = ''Decrypted: '' @ decoded)
   \<and> (atob (helloInput s) = Inl e \<longrightarrow>
        helloOutput (after (helloDecrypt atob s)) = ''Decryption failed: Invalid input'')
   \<and> (helloInput s = helloInput s' \<longrightarrow>
        after (helloDecrypt atob s) = after (helloDecrypt atob s'))"
  by (cases "atob (helloInput s)") (auto simp add: helloDecrypt_def)

theorem helloDecrypt_is_base64_decoding_witness:
  "stub_atob ''aGk='' = Inr ''hi''
   \<and> helloOutput (after (helloDecrypt stub_atob \<lparr>helloInput = ''aGk='', helloOutput = ''''\<rparr>))
       = ''Decrypted: hi''
   \<and> stub_atob ''%'' = Inl InvalidCharacterError
   \<and> helloOutput (after (helloDecrypt stub_atob \<lparr>helloInput = ''%'', helloOutput = ''x''\<rparr>))
       = ''Decryption failed: Invalid input''"
  using helloDecrypt_is_base64_decoding
          [of stub_atob "\<lparr>helloInput = ''aGk='', helloOutput = ''''\<rparr>" "''hi''"]
        helloDecrypt_is_base64_decoding
          [of stub_atob "\<lparr>helloInput = ''%'', helloOutput = ''x''\<rparr>" _ InvalidCharacterError]
  by (simp add: stub_atob_def)

section \<open>The countdown\<close>






section \<open>A key that is not yet available\<close>

lemma stub_key_not_yet: "fetchDecryptionKey stub_env_key_not_yet i = Inl KeyNotYetAvailable"
  by (simp add: stub_env_key_not_yet_def stub_env_def)

text \<open>
  C6, as stated, at second 1125 (the guard passes) with a key that the network has not
  published yet: both apps set their failure message, the one they set for every other
  failure of the reveal.
\<close>

theorem key_not_yet_available_is_shown_as_failure:
  "fetchDecryptionKey stub_env_key_not_yet (identity app_committed) = Inl KeyNotYetAvailable
   \<and> error (after (decrypt stub_env_key_not_yet 1125000 app_committed))
       = ''Failed to decrypt message. Please try again.''
   \<and> fetchDecryptionKey stub_env_key_not_yet (identity game_both_submitted)
       = Inl KeyNotYetAvailable
   \<and> error (after (decryptMoves stub_env_key_not_yet 1125000 game_both_submitted))
       = ''Failed to decrypt moves. Please try again.''"
  by (simp add: stub_key_not_yet decrypt_def decryptMoves_def app_committed_eval
      game_both_submitted_eval Let_def)

text \<open>
  C6, amended. When the guard has passed and the key fetch fails, whatever the failure
  (the key not being published yet included), the reveal ends normally after that one
  call, sets the failure message (\<open>Failed to decrypt message. Please try again.\<close>, in the
  game \<open>Failed to decrypt moves. Please try again.\<close>) and changes nothing else. Nothing
  retries by itself: in the game the countdown is still 0 afterwards, and at 0 the
  countdown effect does nothing.
\<close>

theorem failed_key_fetch_sets_failure_message:
  "(identity s \<noteq> '''' \<and> \<not> notReady (decryptionTimestamp s) (dateNow div 1000)
      \<and> fetchDecryptionKey env (identity s) = Inl e \<longrightarrow>
        after (decrypt env dateNow s)
          = s\<lparr>error := ''Failed to decrypt message. Please try again.''\<rparr>
        \<and> calls (decrypt env dateNow s) = [FetchDecryptionKey (identity s)]
        \<and> thrown (decrypt env dateNow s) = None)
   \<and> (identity g \<noteq> '''' \<and> \<not> notReady (encryptionTimestamp g) (dateNow div 1000)
      \<and> fetchDecryptionKey env (identity g) = Inl e \<longrightarrow>
        after (decryptMoves env dateNow g)
          = g\<lparr>error := ''Failed to decrypt moves. Please try again.''\<rparr>
        \<and> calls (decryptMoves env dateNow g) = [FetchDecryptionKey (identity g)]
        \<and> thrown (decryptMoves env dateNow g) = None)
   \<and> (countdown g = Some 0 \<longrightarrow>
        after (gameTick env' dateNow' g) = g \<and> calls (gameTick env' dateNow' g) = [])"
  by (simp add: decrypt_def decryptMoves_def gameTick_def Let_def)

theorem failed_key_fetch_sets_failure_message_witness:
  "identity app_committed \<noteq> ''''
   \<and> \<not> notReady (decryptionTimestamp app_committed) (1125000 div 1000)
   \<and> fetchDecryptionKey stub_env_key_not_yet (identity app_committed) = Inl KeyNotYetAvailable
   \<and> after (decrypt stub_env_key_not_yet 1125000 app_committed)
       = app_committed\<lparr>error := ''Failed to decrypt message. Please try again.''\<rparr>
   \<and> identity game_both_submitted \<noteq> ''''
   \<and> \<not> notReady (encryptionTimestamp game_both_submitted) (1125000 div 1000)
   \<and> calls (decryptMoves stub_env_key_not_yet 1125000 game_both_submitted)
       = [FetchDecryptionKey (identity game_both_submitted)]"
  using failed_key_fetch_sets_failure_message
          [of app_committed 1125000 stub_env_key_not_yet KeyNotYetAvailable game_both_submitted]
  by (simp add: stub_key_not_yet app_committed_eval game_both_submitted_eval)

section \<open>A registration that fails\<close>

lemma stub_no_registration: "fetchShutterData stub_env_no_registration t = Inl TransportError"
  by (simp add: stub_env_no_registration_def stub_env_def)

text \<open>
  C7, as stated, with a registration call that ends in a transport error at second 1000:
  the commit fails, but the release timestamp 1120 (and, in the single-party app, the
  countdown 122) set before the call stay in the state.
\<close>

theorem failed_registration_keeps_the_timestamp:
  "fetchShutterData stub_env_no_registration 1120 = Inl TransportError
   \<and> thrown (encrypt stub_env_no_registration 1000000 ''5a'' app_init) = Some TransportError
   \<and> decryptionTimestamp app_init = None
   \<and> decryptionTimestamp (after (encrypt stub_env_no_registration 1000000 ''5a'' app_init))
       = Some 1120
   \<and> countdown app_init = None
   \<and> countdown (after (encrypt stub_env_no_registration 1000000 ''5a'' app_init)) = Some 122
   \<and> thrown (submitMove stub_env_no_registration 1000000 ''5a'' player1
        (handleMoveChange player1 (Some rock) game_init)) = Some TransportError
   \<and> encryptionTimestamp (handleMoveChange player1 (Some rock) game_init) = None
   \<and> encryptionTimestamp (after (submitMove stub_env_no_registration 1000000 ''5a'' player1
        (handleMoveChange player1 (Some rock) game_init))) = Some 1120"
  by (simp add: stub_no_registration encrypt_def submitMove_def handleMoveChange_def
      app_init_def game_init_def DECRYPTION_DELAY_def Let_def)

text \<open>
  C7, amended. If the registration call fails, the commit operation (\<open>encrypt\<close>, or a
  \<open>submitMove\<close> that has to register) fails with that exception after that one call, and
  no commitment is produced: the encrypted message, the slots of the players, the identity
  and the eon key are as before. The state after the attempt differs from the state before
  it in what was written before the call: the cleared error message, the release timestamp
  and, in the single-party app, the countdown.
\<close>

theorem failed_registration_produces_no_commitment:
  "(fetchShutterData env (dateNow div 1000 + DECRYPTION_DELAY) = Inl e \<longrightarrow>
      thrown (encrypt env dateNow sigmaHex s) = Some e
      \<and> calls (encrypt env dateNow sigmaHex s)
          = [FetchShutterData (dateNow div 1000 + DECRYPTION_DELAY)]
      \<and> encryptedMessage (after (encrypt env dateNow sigmaHex s)) = encryptedMessage s
      \<and> identity (after (encrypt env dateNow sigmaHex s)) = identity s
      \<and> after (encrypt env dateNow sigmaHex s) =
          s\<lparr>error := '''', decryptionTimestamp := Some (dateNow div 1000 + DECRYPTION_DELAY),
            countdown := Some (DECRYPTION_DELAY + 2)\<rparr>)
   \<and> (fetchShutterData env (dateNow div 1000 + DECRYPTION_DELAY) = Inl e
      \<and> move (players g player) = Some mv \<and> falsy (encryptionTimestamp g) \<longrightarrow>
      thrown (submitMove env dateNow sigmaHex player g) = Some e
      \<and> calls (submitMove env dateNow sigmaHex player g)
          = [FetchShutterData (dateNow div 1000 + DECRYPTION_DELAY)]
      \<and> players (after (submitMove env dateNow sigmaHex player g)) = players g
      \<and> identity (after (submitMove env dateNow sigmaHex player g)) = identity g
      \<and> eonKey (after (submitMove env dateNow sigmaHex player g)) = eonKey g
      \<and> after (submitMove env dateNow sigmaHex player g) =
          g\<lparr>error := '''', encryptionTimestamp := Some (dateNow div 1000 + DECRYPTION_DELAY)\<rparr>)"
  by (simp add: encrypt_def submitMove_def Let_def)

theorem failed_registration_produces_no_commitment_witness:
  "fetchShutterData stub_env_no_registration (1000000 div 1000 + DECRYPTION_DELAY)
     = Inl TransportError
   \<and> thrown (encrypt stub_env_no_registration 1000000 ''5a'' app_init) = Some TransportError
   \<and> encryptedMessage (after (encrypt stub_env_no_registration 1000000 ''5a'' app_init)) = ''''
   \<and> move (players (handleMoveChange player1 (Some rock) game_init) player1) = Some rock
   \<and> falsy (encryptionTimestamp (handleMoveChange player1 (Some rock) game_init))
   \<and> thrown (submitMove stub_env_no_registration 1000000 ''5a'' player1
        (handleMoveChange player1 (Some rock) game_init)) = Some TransportError
   \<and> encryptedMove (players (after (submitMove stub_env_no_registration 1000000 ''5a'' player1
        (handleMoveChange player1 (Some rock) game_init))) player1) = ''''"
  using failed_registration_produces_no_commitment
    [of stub_env_no_registration 1000000 TransportError "''5a''" app_init
        "handleMoveChange player1 (Some rock) game_init" player1 rock]
  by (simp add: stub_no_registration handleMoveChange_def app_init_def game_init_def)

section \<open>The slots of the players\<close>

lemma encryptAndStore_slots:
  "submitted (players s p) \<Longrightarrow>
     submitted (players (after (encryptAndStore env g q mv i k cs s)) p)"
  "q \<noteq> p \<Longrightarrow> players (after (encryptAndStore env g q mv i k cs s)) p = players s p"
  "move (players (after (encryptAndStore env g q mv i k cs s)) p) = move (players s p)"
  by (simp_all add: encryptAndStore_def Let_def split: sum.splits)

lemma submitMove_slots:
  "submitted (players s p) \<Longrightarrow> submitted (players (after (submitMove env d g q s)) p)"
  "q \<noteq> p \<Longrightarrow> players (after (submitMove env d g q s)) p = players s p"
  "move (players (after (submitMove env d g q s)) p) = move (players s p)"
  by (simp_all add: submitMove_def encryptAndStore_slots Let_def
      split: sum.splits option.splits prod.splits)

lemma decryptMoves_players: "players (after (decryptMoves env d s)) = players s"
  by (simp add: decryptMoves_def Let_def split: sum.splits)

lemma gameTick_players: "players (after (gameTick env d s)) = players s"
  by (simp add: gameTick_def decryptMoves_players Let_def)

text \<open>
  C8, as stated, on the game after player 1 submitted rock: the select element of
  player 1 is still enabled, and changing it to paper overwrites the chosen move of the
  submitted slot.
\<close>

theorem chosen_move_changes_after_submission:
  "submitted (players game_one_submitted player1)
   \<and> move (players game_one_submitted player1) = Some rock
   \<and> offered game_one_submitted (HandleMoveChange player1 (Some paper))
   \<and> move (players (after (perform stub_env (HandleMoveChange player1 (Some paper))
        game_one_submitted)) player1) = Some paper
   \<and> submitted (players (after (perform stub_env (HandleMoveChange player1 (Some paper))
        game_one_submitted)) player1)"
  by (simp add: game_one_submitted_eval handleMoveChange_def)

text \<open>
  C8, amended. Once the submitted flag of a slot is set, no operation clears it, and no
  operation that the page still offers (the submit button of a submitted slot is disabled)
  changes the encrypted commitment of the slot. The flag of a slot is set only by
  \<open>submitMove\<close> for that slot, and the chosen move of a slot is changed only by
  \<open>handleMoveChange\<close> for that slot, which does so also after the submission.
\<close>

theorem submitted_slot_keeps_flag_and_commitment:
  "(submitted (players s p) \<longrightarrow> submitted (players (after (perform env a s)) p))
   \<and> (submitted (players s p) \<and> offered s a \<longrightarrow>
        encryptedMove (players (after (perform env a s)) p) = encryptedMove (players s p))
   \<and> (\<not> submitted (players s p) \<and> submitted (players (after (perform env a s)) p) \<longrightarrow>
        (\<exists>dateNow sigmaHex. a = SubmitMove p dateNow sigmaHex))
   \<and> (move (players (after (perform env a s)) p) \<noteq> move (players s p) \<longrightarrow>
        (\<exists>mv. a = HandleMoveChange p mv))"
proof (cases a)
  case (HandleMoveChange q mv)
  then show ?thesis by (auto simp add: handleMoveChange_def)
next
  case (SubmitMove q d g)
  then show ?thesis
    using submitMove_slots [where s = s and p = p and env = env and d = d and g = g and q = q]
    by (cases "q = p") auto
next
  case (Tick d)
  then show ?thesis by (simp add: gameTick_players)
qed

theorem submitted_slot_keeps_flag_and_commitment_witness:
  "submitted (players game_one_submitted player1)
   \<and> offered game_one_submitted (HandleMoveChange player1 (Some paper))
   \<and> submitted (players (after (perform stub_env (HandleMoveChange player1 (Some paper))
        game_one_submitted)) player1)
   \<and> encryptedMove (players (after (perform stub_env (HandleMoveChange player1 (Some paper))
        game_one_submitted)) player1) = ''c0xrock''
   \<and> \<not> offered game_one_submitted (SubmitMove player1 1002000 ''5c'')
   \<and> offered game_one_submitted (SubmitMove player2 1002000 ''5c'')
   \<and> encryptedMove (players (after (perform stub_env (SubmitMove player2 1002000 ''5c'')
        (handleMoveChange player2 (Some scissors) game_one_submitted))) player1) = ''c0xrock''"
  using submitted_slot_keeps_flag_and_commitment
          [of game_one_submitted player1 stub_env "HandleMoveChange player1 (Some paper)"]
        submitted_slot_keeps_flag_and_commitment
          [of "handleMoveChange player2 (Some scissors) game_one_submitted" player1 stub_env
              "SubmitMove player2 1002000 ''5c''"]
  by (simp add: game_one_submitted_eval handleMoveChange_def)

section \<open>One identity and one eon key for a session\<close>

text \<open>
  The phases of \<open>submitMove\<close>, run one after the other with nothing in between, are the
  uninterrupted \<open>submitMove\<close>.
\<close>

lemma encryptAndStore_store:
  "encryptAndStore env sigmaHex player mv i k cs s =
     (case encryptData env (stringToHex env (moveString mv)) i k sigmaHex of
        Inl e \<Rightarrow> \<lparr>after = s, calls = cs @ [EncryptData (stringToHex env (moveString mv)) i k sigmaHex], thrown = Some e\<rparr>
      | Inr c \<Rightarrow> \<lparr>after = storeCommitment player c s,
                    calls = cs @ [EncryptData (stringToHex env (moveString mv)) i k sigmaHex], thrown = None\<rparr>)"
  by (simp add: encryptAndStore_def storeCommitment_def Let_def split: sum.splits)

lemma submitMove_by_phases:
  "proceed env (proceed env (submitMove_begin env dateNow sigmaHex player s))
     = (submitMove env dateNow sigmaHex player s, None)"
  by (simp add: proceed_def submitMove_begin_def submitMove_def encryptAndStore_store Let_def
      split: option.splits sum.splits prod.splits)

lemma game_registration_failed_eval:
  "countdown game_registration_failed = None"
  "identity game_registration_failed = ''0x''"
  "eonKey game_registration_failed = ''0x''"
  "encryptionTimestamp game_registration_failed = Some 1120"
  "players game_registration_failed player1 =
     \<lparr>move = Some rock, encryptedMove = '''', submitted = False\<rparr>"
  by (simp_all add: game_registration_failed_def submitMove_def handleMoveChange_def
      stub_env_no_registration_def stub_env_def game_init_def DECRYPTION_DELAY_def Let_def)

text \<open>
  C3 fails in the code. In the session where player 2 submits while the registration
  started by the submission of player 1 is still awaited, the submission of player 2 finds
  the release timestamp written at line 83 but not yet the pair written at lines 91 to 95:
  it calls no registration and encrypts under the initial pair \<open>('0x', '0x')\<close>, while the
  move of player 1 is encrypted under the registered pair; both slots end up submitted.
  Likewise, after a registration that failed, the next submission finds the timestamp,
  never registers and encrypts under \<open>('0x', '0x')\<close>.
\<close>

theorem overlapping_submissions_encrypt_under_different_pairs:
  "snd (play stub_env overlapping_session (game_init, []))
     = [FetchShutterData 1120,
        EncryptData ''0xscissors'' ''0x'' ''0x'' ''5b'',
        EncryptData ''0xrock'' ''0x1d'' ''0xe0'' ''5a'']
   \<and> snd (fst (play stub_env overlapping_session (game_init, []))) = []
   \<and> players (fst (fst (play stub_env overlapping_session (game_init, [])))) player1
       = \<lparr>move = Some rock, encryptedMove = ''c0xrock'', submitted = True\<rparr>
   \<and> players (fst (fst (play stub_env overlapping_session (game_init, [])))) player2
       = \<lparr>move = Some scissors, encryptedMove = ''c0xscissors'', submitted = True\<rparr>
   \<and> identity (fst (fst (play stub_env overlapping_session (game_init, [])))) = ''0x1d''
   \<and> eonKey (fst (fst (play stub_env overlapping_session (game_init, [])))) = ''0xe0''
   \<and> encryptionTimestamp game_registration_failed = Some 1120
   \<and> calls (submitMove stub_env 1002000 ''5c'' player1 game_registration_failed)
       = [EncryptData ''0xrock'' ''0x'' ''0x'' ''5c'']
   \<and> thrown (submitMove stub_env 1002000 ''5c'' player1 game_registration_failed) = None
   \<and> players (after (submitMove stub_env 1002000 ''5c'' player1 game_registration_failed)) player1
       = \<lparr>move = Some rock, encryptedMove = ''c0xrock'', submitted = True\<rparr>"
  by (simp add: overlapping_session_def submitMove_begin_def storeCommitment_def
      handleMoveChange_def stub_env_def game_init_def DECRYPTION_DELAY_def
      ensureHexString_def Let_def game_registration_failed_eval submitMove_def encryptAndStore_def)

end
